theory Spec2Isabelle
  imports Complex_Main "HOL-Library.Word" "HOL-Library.Sublist" "HOL-Library.AList"
begin

section \<open>Go library functions the sources call\<close>

text \<open>
  Go strings are byte strings: \<open>string\<close> (a list of 8-bit characters) is the same data,
  and \<open>length\<close> is Go's \<^verbatim>\<open>len\<close>. Go's \<^verbatim>\<open>int\<close> is taken as 64 bits wide (a
  \<open>64 word\<close>, so that arithmetic wraps as Go's does), \<^verbatim>\<open>int32\<close> as a \<open>32 word\<close>.
\<close>

subsection \<open>errors\<close>

text \<open>
  An \<^verbatim>\<open>error\<close> value is \<open>go_error option\<close>, \<open>None\<close> being \<^verbatim>\<open>nil\<close>. The sentinel errors
  are constructors; \<open>NumError\<close> is \<^verbatim>\<open>*strconv.NumError\<close> (function and input),
  \<open>OSError\<close> an error of the operating system or of gopsutil, \<open>JoinError\<close> the value
  \<^verbatim>\<open>errors.Join\<close> builds: it keeps its non-nil arguments, in order, and is \<^verbatim>\<open>nil\<close>
  when there is none.
\<close>

datatype go_error =
    ErrProcessNotFound
  | ErrAdapterNotFound
  | ErrNotConnected
  | ErrorString string
  | OSError string
  | NumError string string
  | JoinError "go_error list"

type_synonym error = "go_error option"

definition Join :: "error list \<Rightarrow> error" where
  "Join errs =
     (let es = List.map_filter (\<lambda>e. e) errs
      in if es = [] then None else Some (JoinError es))"

text \<open>The errors a value wraps, innermost first to last, with the joins flattened.\<close>

fun leaves :: "go_error \<Rightarrow> go_error list" where
  "leaves (JoinError es) = concat (map leaves es)"
| "leaves e = [e]"

definition wrapped :: "error \<Rightarrow> go_error list" where
  "wrapped e = (case e of None \<Rightarrow> [] | Some x \<Rightarrow> leaves x)"

subsection \<open>A run-time panic\<close>

datatype panic = IndexOutOfRange nat nat

text \<open>\<^verbatim>\<open>xs[i]\<close>: the element, or the panic "index out of range [i] with length n".\<close>

definition index :: "'a list \<Rightarrow> nat \<Rightarrow> panic + 'a" where
  "index xs i = (if i < length xs then Inr (xs ! i) else Inl (IndexOutOfRange i (length xs)))"

subsection \<open>strings\<close>

definition HasPrefix :: "string \<Rightarrow> string \<Rightarrow> bool" where
  "HasPrefix s p = prefix p s"

definition HasSuffix :: "string \<Rightarrow> string \<Rightarrow> bool" where
  "HasSuffix s p = suffix p s"

definition Contains :: "string \<Rightarrow> string \<Rightarrow> bool" where
  "Contains s sub = sublist sub s"

definition TrimSuffix :: "string \<Rightarrow> string \<Rightarrow> string" where
  "TrimSuffix s suf = (if suffix suf s then take (length s - length suf) s else s)"

text \<open>
  \<^verbatim>\<open>strings.Split(s, sep)\<close> for a separator of one byte, which is what every call in
  the sources passes: the pieces between the separators, never an empty list.
\<close>

fun Split :: "string \<Rightarrow> char \<Rightarrow> string list" where
  "Split [] sep = [[]]"
| "Split (c # cs) sep =
     (if c = sep then [] # Split cs sep
      else (case Split cs sep of
              [] \<Rightarrow> [[c]]
            | w # ws \<Rightarrow> (c # w) # ws))"

text \<open>
  White space as \<^verbatim>\<open>unicode.IsSpace\<close> has it, in UTF-8: the six ASCII characters,
  U+0085, U+00A0, U+1680, U+2000 to U+200A, U+2028, U+2029, U+202F, U+205F, U+3000.
  Each encoding starts with a byte that cannot lie inside another character, so a
  character of white space is met exactly where one of these byte sequences starts.
\<close>

definition space_seqs :: "string list" where
  "space_seqs =
     [[CHR 0x09], [CHR 0x0A], [CHR 0x0B], [CHR 0x0C], [CHR 0x0D], [CHR 0x20],
      [CHR 0xC2, CHR 0x85], [CHR 0xC2, CHR 0xA0], [CHR 0xE1, CHR 0x9A, CHR 0x80],
      [CHR 0xE2, CHR 0x80, CHR 0x80], [CHR 0xE2, CHR 0x80, CHR 0x81],
      [CHR 0xE2, CHR 0x80, CHR 0x82], [CHR 0xE2, CHR 0x80, CHR 0x83],
      [CHR 0xE2, CHR 0x80, CHR 0x84], [CHR 0xE2, CHR 0x80, CHR 0x85],
      [CHR 0xE2, CHR 0x80, CHR 0x86], [CHR 0xE2, CHR 0x80, CHR 0x87],
      [CHR 0xE2, CHR 0x80, CHR 0x88], [CHR 0xE2, CHR 0x80, CHR 0x89],
      [CHR 0xE2, CHR 0x80, CHR 0x8A], [CHR 0xE2, CHR 0x80, CHR 0xA8],
      [CHR 0xE2, CHR 0x80, CHR 0xA9], [CHR 0xE2, CHR 0x80, CHR 0xAF],
      [CHR 0xE2, CHR 0x81, CHR 0x9F], [CHR 0xE3, CHR 0x80, CHR 0x80]]"

text \<open>The width of the sequence of \<open>seqs\<close> that \<open>s\<close> starts with, 0 when there is none.\<close>

definition lead_width :: "string list \<Rightarrow> string \<Rightarrow> nat" where
  "lead_width seqs s = (case find (\<lambda>q. q \<noteq> [] \<and> prefix q s) seqs of None \<Rightarrow> 0 | Some q \<Rightarrow> length q)"

function strip_lead :: "string list \<Rightarrow> string \<Rightarrow> string" where
  "strip_lead seqs s =
     (if lead_width seqs s = 0 then s else strip_lead seqs (drop (lead_width seqs s) s))"
  by pat_completeness auto

termination strip_lead
proof (relation "measure (\<lambda>(seqs, s). length s)")
  fix seqs :: "string list" and s :: string
  assume "lead_width seqs s \<noteq> 0"
  then have "s \<noteq> []"
    by (auto simp: lead_width_def split: option.splits dest!: find_Some_iff [THEN iffD1])
  with \<open>lead_width seqs s \<noteq> 0\<close>
  show "((seqs, drop (lead_width seqs s) s), (seqs, s)) \<in> measure (\<lambda>(seqs, s). length s)"
    by simp
qed simp

definition TrimSpace :: "string \<Rightarrow> string" where
  "TrimSpace s = rev (strip_lead (map rev space_seqs) (rev (strip_lead space_seqs s)))"

text \<open>
  \<^verbatim>\<open>strings.Fields\<close>: the maximal runs of bytes between white space; \<open>w\<close> is the run
  being read, reversed.
\<close>

function fields_from :: "string \<Rightarrow> string \<Rightarrow> string list" where
  "fields_from w [] = (if w = [] then [] else [rev w])"
| "fields_from w (c # cs) =
     (if lead_width space_seqs (c # cs) = 0 then fields_from (c # w) cs
      else (if w = [] then [] else [rev w])
             @ fields_from [] (drop (lead_width space_seqs (c # cs)) (c # cs)))"
  by pat_completeness auto

termination fields_from
  by (relation "measure (\<lambda>(w, s). length s)") auto

definition Fields :: "string \<Rightarrow> string list" where
  "Fields s = fields_from [] s"

subsection \<open>strconv\<close>

definition is_digit :: "char \<Rightarrow> bool" where
  "is_digit c = (48 \<le> (of_char c :: nat) \<and> (of_char c :: nat) \<le> 57)"

definition digits_value :: "string \<Rightarrow> nat" where
  "digits_value ds = foldl (\<lambda>n c. n * 10 + ((of_char c :: nat) - 48)) 0 ds"

text \<open>
  \<^verbatim>\<open>strconv.Atoi\<close>: an optional sign and at least one decimal digit, the value within
  the range of \<^verbatim>\<open>int\<close>; anything else is an error (the sources drop the value
  returned with an error).
\<close>

definition Atoi :: "string \<Rightarrow> go_error + 64 word" where
  "Atoi s =
     (let neg = (s \<noteq> [] \<and> hd s = CHR ''-'');
          body = (if s \<noteq> [] \<and> (hd s = CHR ''-'' \<or> hd s = CHR ''+'') then tl s else s)
      in if body = [] \<or> \<not> list_all is_digit body then Inl (NumError ''Atoi'' s)
         else
           (let v = (if neg then - int (digits_value body) else int (digits_value body))
            in if - (2 ^ 63) \<le> v \<and> v < 2 ^ 63 then Inr (word_of_int v)
               else Inl (NumError ''Atoi'' s)))"

function nat_digits :: "nat \<Rightarrow> string" where
  "nat_digits n =
     (if n < 10 then [char_of (48 + n)]
      else nat_digits (n div 10) @ [char_of (48 + n mod 10)])"
  by pat_completeness auto

termination nat_digits
  by (relation "measure (\<lambda>n. n)") auto

definition Itoa :: "int \<Rightarrow> string" where
  "Itoa i = (if i < 0 then CHR ''-'' # nat_digits (nat (- i)) else nat_digits (nat i))"

text \<open>
  \<^verbatim>\<open>float64\<close> in the wireless code is a type parameter \<open>'f\<close>: the parsers only store
  what \<^verbatim>\<open>strconv.ParseFloat\<close> returns, the constants 0 and -1, and convert one value
  to \<^verbatim>\<open>int\<close>. These operations are passed in, so that what is proved of a parser holds
  whatever \<^verbatim>\<open>ParseFloat\<close> accepts.
\<close>

record 'f float64_ops =
  ParseFloat :: "string \<Rightarrow> go_error + 'f"
  float_zero :: 'f
  float_minus_one :: 'f
  float_to_int :: "'f \<Rightarrow> 64 word"

subsection \<open>path/filepath\<close>

text \<open>
  \<^verbatim>\<open>filepath.Base\<close> on a Unix path: \<^verbatim>\<open>"."\<close> for the empty path, trailing slashes
  dropped, then the part after the last slash, \<^verbatim>\<open>"/"\<close> when nothing is left.
\<close>

definition Base :: "string \<Rightarrow> string" where
  "Base path =
     (if path = [] then ''.''
      else
        (let p = rev (dropWhile (\<lambda>c. c = CHR ''/'') (rev path));
             e = rev (takeWhile (\<lambda>c. c \<noteq> CHR ''/'') (rev p))
         in if e = [] then ''/'' else e))"

section \<open>CPU usage (internal/sensors/cpu.go)\<close>











section \<open>Process handles and the process monitor (internal/sensors/cpu.go)\<close>

text \<open>
  gopsutil's \<^verbatim>\<open>*process.Process\<close> is known here by its \<^verbatim>\<open>Pid\<close>. What the operating
  system answers is a record of functions: \<^verbatim>\<open>process.PidExistsWithContext\<close>,
  \<^verbatim>\<open>process.ProcessesWithContext\<close>, \<^verbatim>\<open>os.ReadFile\<close>, the \<^verbatim>\<open>Exe\<close> and \<^verbatim>\<open>Cmdline\<close>
  methods of gopsutil, and \<^verbatim>\<open>time.Now\<close> where the freshness check and the end of a
  scan read it (in nanoseconds). Each function that talks to the system returns, with
  its result, the calls it made.
\<close>

record os_process =
  Pid :: "32 word"

record system =
  PidExists :: "32 word \<Rightarrow> go_error + bool"
  ProcessesWithContext :: "go_error + os_process list"
  ReadFile :: "string \<Rightarrow> go_error + string"
  process_Exe :: "32 word \<Rightarrow> go_error + string"
  process_Cmdline :: "32 word \<Rightarrow> go_error + string"
  Now_at_check :: int
  Now_at_sync :: int

datatype os_call =
    CallPidExists "32 word"
  | CallProcesses
  | CallReadFile string
  | CallExe "32 word"
  | CallCmdline "32 word"

text \<open>The struct \<^verbatim>\<open>Process\<close>; \<open>Process_ptr\<close> is the embedded pointer, \<open>None\<close> for \<^verbatim>\<open>nil\<close>.\<close>

record Process =
  Process_ptr :: "os_process option"
  PID :: "32 word"
  Name :: string
  exe :: string
  cmdline :: string



text \<open>
  Modelled from the spec: \<^verbatim>\<open>utils.OrderedMap\<close> is not among the sources. The spec has
  it as an "ordered mapping from process id to ProcessHandle (insertion order
  preserved)" with unique ids: a list of pairs, where \<open>Set\<close> replaces the value of a key
  that is present and appends a new key at the end. The handles are held by value.
\<close>

type_synonym OrderedMap = "(32 word \<times> Process) list"

definition NewOrderedMap :: OrderedMap where
  "NewOrderedMap = []"

definition Len :: "OrderedMap \<Rightarrow> nat" where
  "Len m = length m"

definition Keys :: "OrderedMap \<Rightarrow> 32 word list" where
  "Keys m = map fst m"

definition Delete :: "32 word \<Rightarrow> OrderedMap \<Rightarrow> OrderedMap" where
  "Delete k m = AList.delete k m"

definition Set :: "32 word \<Rightarrow> Process \<Rightarrow> OrderedMap \<Rightarrow> OrderedMap" where
  "Set k v m = AList.update k v m"

record ProcessMonitor =
  Processes :: OrderedMap
  lastSync :: int
  name :: string
  disablePidCaching :: bool

definition NewProcessMonitor :: "string \<Rightarrow> bool \<Rightarrow> ProcessMonitor" where
  "NewProcessMonitor nm dis =
     \<lparr>Processes = NewOrderedMap, lastSync = 0, name = nm, disablePidCaching = dis\<rparr>"

text \<open>
  \<^verbatim>\<open>filepath.Join("/proc", strconv.Itoa(int(pid)), file)\<close>: the three parts with
  slashes between them (the joined path is already clean).
\<close>

definition proc_path :: "32 word \<Rightarrow> string \<Rightarrow> string" where
  "proc_path pid file = ''/proc/'' @ Itoa (sint pid) @ ''/'' @ file"

definition getProcName :: "system \<Rightarrow> os_process \<Rightarrow> go_error + string" where
  "getProcName os proc =
     (case ReadFile os (proc_path (Pid proc) ''comm'') of
        Inl err \<Rightarrow> Inl err
      | Inr contents \<Rightarrow> Inr (TrimSuffix contents [CHR 0x0A]))"

definition getProcCmdline :: "system \<Rightarrow> os_process \<Rightarrow> go_error + string" where
  "getProcCmdline os proc =
     (case ReadFile os (proc_path (Pid proc) ''cmdline'') of
        Inl err \<Rightarrow> Inl err
      | Inr data \<Rightarrow>
          (case Split data (CHR 0x00) of
             a # args \<Rightarrow> Inr a
           | [] \<Rightarrow> Inl (ErrorString ''cmdline is empty'')))"

text \<open>The ten seconds of the freshness check, in nanoseconds.\<close>

definition sync_interval :: int where
  "sync_interval = 10 * 1000000000"

text \<open>The loop that drops the cached ids whose process is gone.\<close>

definition purge_pid :: "system \<Rightarrow> 32 word \<Rightarrow> OrderedMap \<Rightarrow> OrderedMap" where
  "purge_pid os pid m =
     (case PidExists os pid of
        Inl err \<Rightarrow> Delete pid m
      | Inr ret \<Rightarrow> if \<not> ret then Delete pid m else m)"

definition handle :: "os_process \<Rightarrow> string \<Rightarrow> Process" where
  "handle proc nm = \<lparr>Process_ptr = Some proc, PID = Pid proc, Name = nm, exe = [], cmdline = []\<rparr>"

text \<open>The body of the loop over the enumerated processes; \<open>ret\<close> is the map being built.\<close>

definition scan_proc :: "system \<Rightarrow> string \<Rightarrow> os_process \<Rightarrow> OrderedMap \<Rightarrow> OrderedMap" where
  "scan_proc os nm proc ret =
     (if length nm \<le> 15 then
        (case getProcName os proc of
           Inl err \<Rightarrow> ret
         | Inr procName \<Rightarrow>
             if procName = nm then Set (Pid proc) (handle proc procName) ret else ret)
      else
        (case getProcCmdline os proc of
           Inl err \<Rightarrow> ret
         | Inr cl \<Rightarrow>
             if cl = [] then ret
             else if Base cl = nm then Set (Pid proc) (handle proc (Base cl)) ret
             else if cl = nm then Set (Pid proc) (handle proc cl) ret
             else ret))"

definition scan_call :: "string \<Rightarrow> os_process \<Rightarrow> os_call" where
  "scan_call nm proc =
     CallReadFile (proc_path (Pid proc) (if length nm \<le> 15 then ''comm'' else ''cmdline''))"

text \<open>
  The result is the pair \<^verbatim>\<open>(utils.OrderedMap, error)\<close> of the source, then the monitor
  as the call leaves it, then the calls made to the system.
\<close>

definition GetProcessesWithContext ::
  "system \<Rightarrow> ProcessMonitor \<Rightarrow> (OrderedMap option \<times> error) \<times> ProcessMonitor \<times> os_call list" where
  "GetProcessesWithContext os p =
     (if Len (Processes p) > 0 \<and> \<not> disablePidCaching p then
        (if lastSync p + sync_interval < Now_at_check os
         then ((Some (Processes p), None), p, [])
         else ((Some (Processes p), None), p, []))
      else
        (let pids = Keys (Processes p);
             kept = fold (purge_pid os) pids (Processes p);
             calls = map CallPidExists pids @ [CallProcesses]
         in case ProcessesWithContext os of
              Inl err \<Rightarrow>
                ((None, Join [Some (ErrorString ''failed to get processes''), Some err]),
                 p\<lparr>Processes := kept\<rparr>, calls)
            | Inr procs \<Rightarrow>
                (let ret = fold (scan_proc os (name p)) procs NewOrderedMap
                 in ((Some ret, None),
                     p\<lparr>Processes := ret, lastSync := Now_at_sync os\<rparr>,
                     calls @ map (scan_call (name p)) procs))))"

text \<open>The matching rule in the spec's words.\<close>

definition matches_target :: "system \<Rightarrow> string \<Rightarrow> os_process \<Rightarrow> bool" where
  "matches_target os target proc =
     (if length target \<le> 15 then
        (case ReadFile os (proc_path (Pid proc) ''comm'') of
           Inl err \<Rightarrow> False
         | Inr contents \<Rightarrow> TrimSuffix contents [CHR 0x0A] = target)
      else
        (case ReadFile os (proc_path (Pid proc) ''cmdline'') of
           Inl err \<Rightarrow> False
         | Inr data \<Rightarrow>
             (let arg0 = hd (Split data (CHR 0x00))
              in arg0 \<noteq> [] \<and> (Base arg0 = target \<or> arg0 = target))))"

definition full_sync :: "ProcessMonitor \<Rightarrow> bool" where
  "full_sync p = (Len (Processes p) = 0 \<or> disablePidCaching p)"

section \<open>Wireless link status (package wifimonitor)\<close>

text \<open>
  The struct \<^verbatim>\<open>networkStatus\<close> is declared outside the sources at hand; its fields
  and their types are those the parsers assign (\<^verbatim>\<open>int\<close> from \<^verbatim>\<open>strconv.Atoi\<close>,
  \<^verbatim>\<open>float64\<close> from \<^verbatim>\<open>strconv.ParseFloat\<close>). A parser returns the pair
  \<^verbatim>\<open>(*networkStatus, error)\<close>, either of which may be \<^verbatim>\<open>nil\<close>, or panics.
\<close>

record 'f networkStatus =
  NetworkName :: string
  SignalStrength :: "64 word"
  FrequencyMHz :: "64 word"
  TxSpeedMbps :: 'f
  RxSpeedMbps :: 'f
  TxRetries :: "64 word"
  TxFailed :: "64 word"
  BeaconSignalAvg :: "64 word"
  ConnectedTimeSec :: "64 word"
  InactiveTimeMs :: "64 word"

type_synonym 'f parse_result = "panic + ('f networkStatus option \<times> error)"

text \<open>The zero value \<^verbatim>\<open>networkStatus{}\<close>.\<close>

definition networkStatus_zero :: "'f float64_ops \<Rightarrow> 'f networkStatus" where
  "networkStatus_zero ops =
     \<lparr>NetworkName = [], SignalStrength = 0, FrequencyMHz = 0,
      TxSpeedMbps = float_zero ops, RxSpeedMbps = float_zero ops,
      TxRetries = 0, TxFailed = 0, BeaconSignalAvg = 0, ConnectedTimeSec = 0,
      InactiveTimeMs = 0\<rparr>"

subsection \<open>Choosing the backend\<close>

datatype WifiMonitor = iwWifiMonitor string | nmcliWifiMonitor string | procWifiMonitor string

text \<open>
  What \<^verbatim>\<open>newWifiMonitor\<close> asks the system: \<^verbatim>\<open>exec.LookPath\<close> (the path found, or an
  error) and the error of \<^verbatim>\<open>os.Stat\<close>. The result \<open>None\<close> is the \<^verbatim>\<open>nil\<close> monitor.
\<close>

record lookup_env =
  LookPath :: "string \<Rightarrow> go_error + string"
  Stat :: "string \<Rightarrow> error"

definition newWifiMonitor :: "lookup_env \<Rightarrow> string \<Rightarrow> WifiMonitor option" where
  "newWifiMonitor env adapter =
     (case LookPath env ''iw'' of
        Inr _ \<Rightarrow> Some (iwWifiMonitor adapter)
      | Inl _ \<Rightarrow>
          (case LookPath env ''nmcli'' of
             Inr _ \<Rightarrow> Some (nmcliWifiMonitor adapter)
           | Inl _ \<Rightarrow>
               (case Stat env ''/proc/net/wireless'' of
                  None \<Rightarrow> Some (procWifiMonitor adapter)
                | Some _ \<Rightarrow> None)))"

subsection \<open>The nmcli parser\<close>

text \<open>The body of the \<^verbatim>\<open>if strings.HasPrefix(line, "yes:")\<close> branch.\<close>

definition nmcli_row :: "'f float64_ops \<Rightarrow> string \<Rightarrow> 'f parse_result" where
  "nmcli_row ops line =
     (let col = Split line CHR '':'' in
      case index col 6 of Inl p \<Rightarrow> Inl p | Inr c6 \<Rightarrow>
      (let (signalStrength, e1) =
             (case Atoi c6 of
                Inl err \<Rightarrow> (- 1, Join [None, Some err])
              | Inr v \<Rightarrow> (v, None)) in
       case index col 5 of Inl p \<Rightarrow> Inl p | Inr c5 \<Rightarrow>
       (case index (Split c5 CHR '' '') 0 of Inl p \<Rightarrow> Inl p | Inr rate \<Rightarrow>
        (let (linkSpeed, e2) =
               (case ParseFloat ops rate of
                  Inl err \<Rightarrow> (float_minus_one ops, Join [e1, Some err])
                | Inr v \<Rightarrow> (v, e1)) in
         case index col 2 of Inl p \<Rightarrow> Inl p | Inr c2 \<Rightarrow>
           Inr (Some ((networkStatus_zero ops)
                  \<lparr>NetworkName := c2,
                   SignalStrength := - 1 * signalStrength,
                   TxSpeedMbps := linkSpeed\<rparr>), e2)))))"

fun nmcli_loop :: "'f float64_ops \<Rightarrow> string \<Rightarrow> string list \<Rightarrow> bool \<Rightarrow> 'f parse_result" where
  "nmcli_loop ops adapter [] adapterFound =
     (if \<not> adapterFound then Inr (None, Some ErrAdapterNotFound)
      else Inr (None, Some ErrNotConnected))"
| "nmcli_loop ops adapter (line # lines) adapterFound =
     (if \<not> HasSuffix line adapter then nmcli_loop ops adapter lines adapterFound
      else if HasPrefix line ''yes:'' then nmcli_row ops line
      else nmcli_loop ops adapter lines True)"

definition nmcli_parseNetworkStatus :: "'f float64_ops \<Rightarrow> string \<Rightarrow> string \<Rightarrow> 'f parse_result" where
  "nmcli_parseNetworkStatus ops adapter out =
     nmcli_loop ops adapter (Split out (CHR 0x0A)) False"

subsection \<open>The iw parser\<close>

text \<open>One turn of the loop over the lines: the status and the error so far, updated.\<close>

definition iw_line ::
  "'f float64_ops \<Rightarrow> string \<Rightarrow> 'f networkStatus \<times> error \<Rightarrow> panic + ('f networkStatus \<times> error)" where
  "iw_line ops l se =
     (let line = TrimSpace l; status = fst se; e = snd se in
      if HasPrefix line ''SSID:'' then
        (case index (Split line CHR '':'') 1 of Inl p \<Rightarrow> Inl p | Inr c1 \<Rightarrow>
           Inr (status\<lparr>NetworkName := TrimSpace c1\<rparr>, e))
      else if HasPrefix line ''freq:'' then
        (case index (Split line CHR '':'') 1 of Inl p \<Rightarrow> Inl p | Inr c1 \<Rightarrow>
           (case ParseFloat ops (TrimSpace c1) of
              Inl err \<Rightarrow> Inr (status, Join [e, Some err])
            | Inr freq \<Rightarrow> Inr (status\<lparr>FrequencyMHz := float_to_int ops freq\<rparr>, e)))
      else if HasPrefix line ''signal:'' then
        (case index (Split line CHR '':'') 1 of Inl p \<Rightarrow> Inl p | Inr c1 \<Rightarrow>
           (case Atoi (TrimSuffix (TrimSpace c1) '' dBm'') of
              Inl err \<Rightarrow> Inr (status\<lparr>SignalStrength := - 1\<rparr>, Join [e, Some err])
            | Inr v \<Rightarrow> Inr (status\<lparr>SignalStrength := v\<rparr>, e)))
      else if HasPrefix line ''rx bitrate:'' then
        (case index (Split line CHR '':'') 1 of Inl p \<Rightarrow> Inl p | Inr c1 \<Rightarrow>
           (case index (Split c1 CHR '' '') 1 of Inl p \<Rightarrow> Inl p | Inr rate \<Rightarrow>
              (case ParseFloat ops rate of
                 Inl err \<Rightarrow> Inr (status\<lparr>RxSpeedMbps := float_minus_one ops\<rparr>, Join [e, Some err])
               | Inr v \<Rightarrow> Inr (status\<lparr>RxSpeedMbps := v\<rparr>, e))))
      else if HasPrefix line ''tx bitrate:'' then
        (case index (Split line CHR '':'') 1 of Inl p \<Rightarrow> Inl p | Inr c1 \<Rightarrow>
           (case index (Split c1 CHR '' '') 1 of Inl p \<Rightarrow> Inl p | Inr rate \<Rightarrow>
              (case ParseFloat ops rate of
                 Inl err \<Rightarrow> Inr (status\<lparr>TxSpeedMbps := float_minus_one ops\<rparr>, Join [e, Some err])
               | Inr v \<Rightarrow> Inr (status\<lparr>TxSpeedMbps := v\<rparr>, e))))
      else Inr (status, e))"

fun iw_loop ::
  "'f float64_ops \<Rightarrow> string list \<Rightarrow> 'f networkStatus \<times> error \<Rightarrow> panic + ('f networkStatus \<times> error)" where
  "iw_loop ops [] se = Inr se"
| "iw_loop ops (l # ls) se =
     (case iw_line ops l se of Inl p \<Rightarrow> Inl p | Inr se' \<Rightarrow> iw_loop ops ls se')"

definition iw_parseNetworkStatus :: "'f float64_ops \<Rightarrow> string \<Rightarrow> 'f parse_result" where
  "iw_parseNetworkStatus ops out =
     (if Contains out ''Not connected'' then Inr (None, Some ErrNotConnected)
      else if Contains out ''No such device'' then Inr (None, Some ErrAdapterNotFound)
      else
        (case iw_loop ops (Split out (CHR 0x0A)) (networkStatus_zero ops, None) of
           Inl p \<Rightarrow> Inl p
         | Inr se \<Rightarrow> Inr (Some (fst se), snd se)))"

subsection \<open>The /proc/net/wireless parser\<close>

definition proc_row :: "'f float64_ops \<Rightarrow> string \<Rightarrow> 'f parse_result" where
  "proc_row ops line =
     (let col = Fields line in
      case index col 3 of Inl p \<Rightarrow> Inl p | Inr c3 \<Rightarrow>
      (case Atoi (TrimSuffix c3 ''.'') of
         Inl err \<Rightarrow> Inr (None, Some err)
       | Inr signalStrength \<Rightarrow>
           (case index col 2 of Inl p \<Rightarrow> Inl p | Inr c2 \<Rightarrow>
            (case ParseFloat ops c2 of
               Inl err \<Rightarrow> Inr (None, Some err)
             | Inr linkSpeed \<Rightarrow>
                 Inr (Some ((networkStatus_zero ops)
                        \<lparr>NetworkName := ''unknown'',
                         SignalStrength := signalStrength,
                         TxSpeedMbps := linkSpeed\<rparr>), None)))))"

fun proc_loop :: "'f float64_ops \<Rightarrow> string \<Rightarrow> string list \<Rightarrow> 'f parse_result" where
  "proc_loop ops adapter [] = Inr (None, Some ErrAdapterNotFound)"
| "proc_loop ops adapter (l # ls) =
     (let line = TrimSpace l in
      if HasPrefix line adapter then proc_row ops line
      else proc_loop ops adapter ls)"

definition proc_parseNetworkStatus :: "'f float64_ops \<Rightarrow> string \<Rightarrow> string \<Rightarrow> 'f parse_result" where
  "proc_parseNetworkStatus ops adapter out = proc_loop ops adapter (Split out (CHR 0x0A))"

subsection \<open>What the wireless claims speak of\<close>

text \<open>A tool is on the path; a file exists.\<close>

definition on_path :: "lookup_env \<Rightarrow> string \<Rightarrow> bool" where
  "on_path env tool = (case LookPath env tool of Inr _ \<Rightarrow> True | Inl _ \<Rightarrow> False)"

definition file_exists :: "lookup_env \<Rightarrow> string \<Rightarrow> bool" where
  "file_exists env path = (Stat env path = None)"

text \<open>A system where each of iw, nmcli and /proc/net/wireless is present or not.\<close>

definition system_with :: "bool \<Rightarrow> bool \<Rightarrow> bool \<Rightarrow> lookup_env" where
  "system_with iw nm pr =
     \<lparr>LookPath = (\<lambda>t. if (t = ''iw'' \<and> iw) \<or> (t = ''nmcli'' \<and> nm) then Inr (''/usr/sbin/'' @ t)
                      else Inl (OSError ''executable file not found in $PATH'')),
      Stat = (\<lambda>f. if f = ''/proc/net/wireless'' \<and> pr then None
                  else Some (OSError ''no such file or directory''))\<rparr>"

text \<open>
  A stand-in for \<^verbatim>\<open>strconv.ParseFloat\<close> to run the parsers on examples: plain decimal
  literals (sign, digits, an optional fraction), read as exact numbers.
\<close>

definition ParseFloat_decimal :: "string \<Rightarrow> go_error + rat" where
  "ParseFloat_decimal s =
     (let neg = (s \<noteq> [] \<and> hd s = CHR ''-'');
          body = (if s \<noteq> [] \<and> (hd s = CHR ''-'' \<or> hd s = CHR ''+'') then tl s else s);
          ip = takeWhile is_digit body;
          rest = dropWhile is_digit body;
          fp = (case rest of [] \<Rightarrow> [] | c # ds \<Rightarrow> ds)
      in if (rest \<noteq> [] \<and> hd rest \<noteq> CHR ''.'') \<or> \<not> list_all is_digit fp \<or> (ip = [] \<and> fp = [])
         then Inl (NumError ''ParseFloat'' s)
         else
           (let v = of_nat (digits_value ip) + of_nat (digits_value fp) / 10 ^ length fp
            in Inr (if neg then - v else v)))"

definition decimal_ops :: "rat float64_ops" where
  "decimal_ops =
     \<lparr>ParseFloat = ParseFloat_decimal, float_zero = 0, float_minus_one = - 1,
      float_to_int = (\<lambda>x. word_of_int (if x < 0 then - \<lfloor>- x\<rfloor> else \<lfloor>x\<rfloor>))\<rparr>"

text \<open>The first row of the nmcli listing that ends with the adapter and is marked active.\<close>

definition nmcli_active_row :: "string \<Rightarrow> string list \<Rightarrow> string option" where
  "nmcli_active_row adapter lines =
     find (\<lambda>l. HasSuffix l adapter \<and> HasPrefix l ''yes:'') lines"

text \<open>
  The field-level parse errors of a text, as the spec speaks of them: for each numeric
  field that is read, the error of its conversion, in the order of the fields.
\<close>

datatype field_kind = IntField | FloatField

definition conversion_errors :: "'f float64_ops \<Rightarrow> field_kind \<times> string \<Rightarrow> go_error list" where
  "conversion_errors ops f =
     (case fst f of
        IntField \<Rightarrow> (case Atoi (snd f) of Inl err \<Rightarrow> leaves err | Inr _ \<Rightarrow> [])
      | FloatField \<Rightarrow> (case ParseFloat ops (snd f) of Inl err \<Rightarrow> leaves err | Inr _ \<Rightarrow> []))"

definition second :: "string list \<Rightarrow> string" where
  "second xs = (case xs of _ # c # _ \<Rightarrow> c | _ \<Rightarrow> [])"

definition iw_numeric_fields :: "string \<Rightarrow> (field_kind \<times> string) list" where
  "iw_numeric_fields l =
     (let line = TrimSpace l; c1 = second (Split line CHR '':'') in
      if HasPrefix line ''SSID:'' then []
      else if HasPrefix line ''freq:'' then [(FloatField, TrimSpace c1)]
      else if HasPrefix line ''signal:'' then [(IntField, TrimSuffix (TrimSpace c1) '' dBm'')]
      else if HasPrefix line ''rx bitrate:'' \<or> HasPrefix line ''tx bitrate:''
        then [(FloatField, second (Split c1 CHR '' ''))]
      else [])"

definition iw_field_errors :: "'f float64_ops \<Rightarrow> string \<Rightarrow> go_error list" where
  "iw_field_errors ops out =
     concat (map (\<lambda>l. concat (map (conversion_errors ops) (iw_numeric_fields l)))
               (Split out (CHR 0x0A)))"

definition nmcli_numeric_fields :: "string \<Rightarrow> (field_kind \<times> string) list" where
  "nmcli_numeric_fields row =
     (let col = Split row CHR '':'' in
      [(IntField, col ! 6), (FloatField, hd (Split (col ! 5) CHR '' ''))])"

definition nmcli_field_errors :: "'f float64_ops \<Rightarrow> string \<Rightarrow> go_error list" where
  "nmcli_field_errors ops row = concat (map (conversion_errors ops) (nmcli_numeric_fields row))"

section \<open>Sample inputs\<close>

text \<open>
  A small system: init (pid 1), a kernel thread (pid 2, empty command line), the
  monitored program (pid 42) and a process listed by the enumeration whose files are
  already gone (pid 77).
\<close>

definition sample_files :: "string \<Rightarrow> go_error + string" where
  "sample_files path =
     (if path = ''/proc/1/comm'' then Inr (''systemd'' @ [CHR 0x0A])
      else if path = ''/proc/1/cmdline'' then Inr (''/sbin/init'' @ [CHR 0x00])
      else if path = ''/proc/2/comm'' then Inr (''kthreadd'' @ [CHR 0x0A])
      else if path = ''/proc/2/cmdline'' then Inr []
      else if path = ''/proc/42/comm'' then Inr (''rinzlerlabs-sbc'' @ [CHR 0x0A])
      else if path = ''/proc/42/cmdline'' then
        Inr (''/opt/bin/rinzlerlabs-sbc-hwmonitor'' @ [CHR 0x00] @ ''/tmp/module.sock'' @ [CHR 0x00])
      else Inl (OSError ''no such file or directory''))"

definition sample_system :: system where
  "sample_system =
     \<lparr>PidExists = (\<lambda>pid. Inr (pid = 1 \<or> pid = 2 \<or> pid = 42)),
      ProcessesWithContext = Inr [\<lparr>Pid = 1\<rparr>, \<lparr>Pid = 2\<rparr>, \<lparr>Pid = 42\<rparr>, \<lparr>Pid = 77\<rparr>],
      ReadFile = sample_files,
      process_Exe = (\<lambda>pid. if pid = 42 then Inr ''/opt/bin/rinzlerlabs-sbc-hwmonitor''
                             else Inl (OSError ''no such file or directory'')),
      process_Cmdline = (\<lambda>pid. if pid = 42 then Inr ''/opt/bin/rinzlerlabs-sbc-hwmonitor /tmp/module.sock''
                                 else if pid = 2 then Inr []
                                 else Inl (OSError ''no such file or directory'')),
      Now_at_check = 100000000000,
      Now_at_sync = 100000000005\<rparr>"

text \<open>The same system when the enumeration of the processes fails.\<close>

definition failing_system :: system where
  "failing_system = sample_system\<lparr>ProcessesWithContext := Inl (OSError ''permission denied'')\<rparr>"


definition short_monitor :: ProcessMonitor where
  "short_monitor = NewProcessMonitor ''systemd'' False"

definition long_monitor :: ProcessMonitor where
  "long_monitor = NewProcessMonitor ''rinzlerlabs-sbc-hwmonitor'' False"

text \<open>A monitor whose cache was filled at time 0, with caching enabled.\<close>

definition cached_monitor :: ProcessMonitor where
  "cached_monitor =
     \<lparr>Processes = [(42, handle \<lparr>Pid = 42\<rparr> ''rinzlerlabs-sbc-hwmonitor'')], lastSync = 0,
      name = ''rinzlerlabs-sbc-hwmonitor'', disablePidCaching = False\<rparr>"



text \<open>Texts for the parsers: each has fields that do not convert.\<close>

definition iw_sample :: string where
  "iw_sample = ''freq: a'' @ [CHR 0x0A, CHR 0x09] @ ''signal: b dBm'' @ [CHR 0x0A, CHR 0x09]
     @ ''rx bitrate: c MBit/s''"

definition nmcli_bad_row :: string where
  "nmcli_bad_row = ''yes:Home:Home:6:2437 MHz:x Mbit/s:y:wlan0''"

definition nmcli_sample :: string where
  "nmcli_sample = ''no:Cafe:Cafe:1:2412 MHz:54 Mbit/s:40:wlan0'' @ [CHR 0x0A]
     @ nmcli_bad_row @ [CHR 0x0A]"

definition nmcli_good_row :: string where
  "nmcli_good_row = ''yes:Home:Home net:6:2437 MHz:54 Mbit/s:70:wlan0''"

definition nmcli_listing :: string where
  "nmcli_listing = ''no:Cafe:Cafe:1:2412 MHz:54 Mbit/s:40:wlan0'' @ [CHR 0x0A]
     @ ''yes:Lab:Lab:11:2462 MHz:130 Mbit/s:55:wlan1'' @ [CHR 0x0A]
     @ nmcli_good_row @ [CHR 0x0A]"

definition nmcli_idle_listing :: string where
  "nmcli_idle_listing = ''no:Cafe:Cafe:1:2412 MHz:54 Mbit/s:40:wlan0'' @ [CHR 0x0A]
     @ ''yes:Lab:Lab:11:2462 MHz:130 Mbit/s:55:wlan1'' @ [CHR 0x0A]"

definition proc_sample :: string where
  "proc_sample = ''wlan0: 0000 x y.''"

section \<open>Properties of CalculateUsage\<close>

subsection \<open>Rounding\<close>










subsection \<open>Claims on CalculateUsage\<close>






section \<open>Properties of the process handles and the process monitor\<close>

lemma Split_not_Nil: "Split s c \<noteq> []"
  by (induction s) (auto split: list.splits)

lemma Keys_Set: "set (Keys (Set k v m)) = insert k (set (Keys m))"
  by (simp add: Keys_def Set_def dom_update)

lemma getProcCmdline_hd:
  "getProcCmdline os proc =
     (case ReadFile os (proc_path (Pid proc) ''cmdline'') of
        Inl err \<Rightarrow> Inl err
      | Inr data \<Rightarrow> Inr (hd (Split data (CHR 0x00))))"
  using Split_not_Nil [of _ "CHR 0x00"]
  by (auto simp: getProcCmdline_def split: sum.splits list.splits)

lemma scan_proc_cases:
  "scan_proc os nm proc ret =
     (if matches_target os nm proc then Set (Pid proc) (handle proc nm) ret else ret)"
  by (auto simp: scan_proc_def matches_target_def getProcName_def getProcCmdline_hd Let_def
      split: sum.splits)

lemma scan_keys:
  "set (Keys (fold (scan_proc os nm) procs ret)) =
     set (Keys ret) \<union> {Pid proc | proc. proc \<in> set procs \<and> matches_target os nm proc}"
  by (induction procs arbitrary: ret) (auto simp: scan_proc_cases Keys_Set)

lemma Set_entries:
  "(k', h) \<in> set (Set k v m) \<Longrightarrow> (k', h) = (k, v) \<or> (k', h) \<in> set m"
  unfolding Set_def by (induction m) (auto split: if_splits)

lemma scan_entries:
  "(k, h) \<in> set (fold (scan_proc os nm) procs ret) \<Longrightarrow>
     (k, h) \<in> set ret \<or> (\<exists>proc \<in> set procs. k = Pid proc \<and> h = handle proc nm)"
proof (induction procs arbitrary: ret)
  case Nil
  then show ?case by simp
next
  case (Cons proc procs)
  from Cons.IH [of "scan_proc os nm proc ret"] Cons.prems
  have "(k, h) \<in> set (scan_proc os nm proc ret)
          \<or> (\<exists>q \<in> set procs. k = Pid q \<and> h = handle q nm)"
    by simp
  then show ?case
    by (auto simp: scan_proc_cases dest: Set_entries split: if_splits)
qed

lemma full_sync_result:
  "full_sync p \<Longrightarrow> ProcessesWithContext os = Inr procs \<Longrightarrow>
     GetProcessesWithContext os p =
       ((Some (fold (scan_proc os (name p)) procs NewOrderedMap), None),
        p\<lparr>Processes := fold (scan_proc os (name p)) procs NewOrderedMap,
          lastSync := Now_at_sync os\<rparr>,
        map CallPidExists (Keys (Processes p)) @ [CallProcesses]
          @ map (scan_call (name p)) procs)"
  by (auto simp: full_sync_def GetProcessesWithContext_def Let_def)

text \<open>
  C3. In a full resynchronization (the cache is empty or caching is disabled, and the
  enumeration succeeds) the returned map holds exactly the ids of the enumerated
  processes that match the target name, each with a handle that carries the id and
  the name. A target of at most 15 bytes matches a process whose
  \<^verbatim>\<open>/proc/<pid>/comm\<close> can be read and, with one trailing newline dropped, is the
  target; a longer target matches a process whose \<^verbatim>\<open>/proc/<pid>/cmdline\<close> can be
  read, has a non-empty first NUL-separated argument, and that argument or its base
  name is the target.
\<close>

theorem resync_matches_by_length:
  "(full_sync p \<and> ProcessesWithContext os = Inr procs \<longrightarrow>
      (\<exists>m. fst (GetProcessesWithContext os p) = (Some m, None)
         \<and> (\<forall>pid. pid \<in> set (Keys m) \<longleftrightarrow>
               (\<exists>proc \<in> set procs. Pid proc = pid \<and> matches_target os (name p) proc))
         \<and> (\<forall>kh \<in> set m. PID (snd kh) = fst kh \<and> Name (snd kh) = name p)))
   \<and> (length target \<le> 15 \<longrightarrow>
        matches_target os target proc =
          (\<exists>contents. ReadFile os (proc_path (Pid proc) ''comm'') = Inr contents
             \<and> TrimSuffix contents [CHR 0x0A] = target))
   \<and> (length target > 15 \<longrightarrow>
        matches_target os target proc =
          (\<exists>data. ReadFile os (proc_path (Pid proc) ''cmdline'') = Inr data
             \<and> hd (Split data (CHR 0x00)) \<noteq> []
             \<and> (Base (hd (Split data (CHR 0x00))) = target
                  \<or> hd (Split data (CHR 0x00)) = target)))"
proof (intro conjI impI)
  assume a: "full_sync p \<and> ProcessesWithContext os = Inr procs"
  let ?m = "fold (scan_proc os (name p)) procs NewOrderedMap"
  have r: "fst (GetProcessesWithContext os p) = (Some ?m, None)"
    using a by (simp add: full_sync_result)
  have k: "\<forall>pid. pid \<in> set (Keys ?m) \<longleftrightarrow>
             (\<exists>proc \<in> set procs. Pid proc = pid \<and> matches_target os (name p) proc)"
  proof -
    have "set (Keys NewOrderedMap) = {}"
      by (simp add: Keys_def NewOrderedMap_def)
    with scan_keys [of os "name p" procs NewOrderedMap] show ?thesis
      by auto
  qed
  have h: "\<forall>kh \<in> set ?m. PID (snd kh) = fst kh \<and> Name (snd kh) = name p"
  proof
    fix kh assume "kh \<in> set ?m"
    then have "(fst kh, snd kh) \<in> set ?m" by simp
    from scan_entries [OF this] show "PID (snd kh) = fst kh \<and> Name (snd kh) = name p"
      by (auto simp: NewOrderedMap_def handle_def)
  qed
  from r k h
  show "\<exists>m. fst (GetProcessesWithContext os p) = (Some m, None)
         \<and> (\<forall>pid. pid \<in> set (Keys m) \<longleftrightarrow>
               (\<exists>proc \<in> set procs. Pid proc = pid \<and> matches_target os (name p) proc))
         \<and> (\<forall>kh \<in> set m. PID (snd kh) = fst kh \<and> Name (snd kh) = name p)"
    by blast
next
  assume "length target \<le> 15"
  then show "matches_target os target proc =
          (\<exists>contents. ReadFile os (proc_path (Pid proc) ''comm'') = Inr contents
             \<and> TrimSuffix contents [CHR 0x0A] = target)"
    by (auto simp: matches_target_def split: sum.splits)
next
  assume "length target > 15"
  then show "matches_target os target proc =
          (\<exists>data. ReadFile os (proc_path (Pid proc) ''cmdline'') = Inr data
             \<and> hd (Split data (CHR 0x00)) \<noteq> []
             \<and> (Base (hd (Split data (CHR 0x00))) = target
                  \<or> hd (Split data (CHR 0x00)) = target))"
    by (auto simp: matches_target_def Let_def split: sum.splits)
qed

theorem resync_matches_by_length_witness:
  "full_sync short_monitor \<and> full_sync long_monitor
   \<and> ProcessesWithContext sample_system = Inr [\<lparr>Pid = 1\<rparr>, \<lparr>Pid = 2\<rparr>, \<lparr>Pid = 42\<rparr>, \<lparr>Pid = 77\<rparr>]
   \<and> (\<exists>m. fst (GetProcessesWithContext sample_system short_monitor) = (Some m, None)
         \<and> set (Keys m) = {1})
   \<and> (\<exists>m. fst (GetProcessesWithContext sample_system long_monitor) = (Some m, None)
         \<and> set (Keys m) = {42})"
proof -
  let ?procs = "[\<lparr>Pid = 1\<rparr>, \<lparr>Pid = 2\<rparr>, \<lparr>Pid = 42\<rparr>, \<lparr>Pid = 77\<rparr>]"
  have s: "full_sync short_monitor" and l: "full_sync long_monitor"
    by (simp_all add: full_sync_def short_monitor_def long_monitor_def NewProcessMonitor_def
        NewOrderedMap_def Len_def)
  have e: "ProcessesWithContext sample_system = Inr ?procs"
    by (simp add: sample_system_def)
  have ms: "matches_target sample_system (name short_monitor) \<lparr>Pid = 1\<rparr>"
    "\<not> matches_target sample_system (name short_monitor) \<lparr>Pid = 2\<rparr>"
    "\<not> matches_target sample_system (name short_monitor) \<lparr>Pid = 42\<rparr>"
    "\<not> matches_target sample_system (name short_monitor) \<lparr>Pid = 77\<rparr>"
    by code_simp+
  have ml: "\<not> matches_target sample_system (name long_monitor) \<lparr>Pid = 1\<rparr>"
    "\<not> matches_target sample_system (name long_monitor) \<lparr>Pid = 2\<rparr>"
    "matches_target sample_system (name long_monitor) \<lparr>Pid = 42\<rparr>"
    "\<not> matches_target sample_system (name long_monitor) \<lparr>Pid = 77\<rparr>"
    by code_simp+
  from resync_matches_by_length [of short_monitor sample_system ?procs] s e
  obtain m where m: "fst (GetProcessesWithContext sample_system short_monitor) = (Some m, None)"
    and km: "\<forall>pid. pid \<in> set (Keys m) \<longleftrightarrow>
               (\<exists>proc \<in> set ?procs. Pid proc = pid \<and> matches_target sample_system (name short_monitor) proc)"
    by blast
  from km ms have "set (Keys m) = {1}" by auto
  with m have short: "\<exists>m. fst (GetProcessesWithContext sample_system short_monitor) = (Some m, None)
         \<and> set (Keys m) = {1}" by blast
  from resync_matches_by_length [of long_monitor sample_system ?procs] l e
  obtain n where n: "fst (GetProcessesWithContext sample_system long_monitor) = (Some n, None)"
    and kn: "\<forall>pid. pid \<in> set (Keys n) \<longleftrightarrow>
               (\<exists>proc \<in> set ?procs. Pid proc = pid \<and> matches_target sample_system (name long_monitor) proc)"
    by blast
  from kn ml have "set (Keys n) = {42}" by auto
  with n have long: "\<exists>m. fst (GetProcessesWithContext sample_system long_monitor) = (Some m, None)
         \<and> set (Keys m) = {42}" by blast
  from s l e short long show ?thesis by blast
qed

text \<open>
  C5. When the cached map is not empty and pid caching is enabled,
  \<^verbatim>\<open>GetProcessesWithContext\<close> returns the cached map as it is, leaves the monitor
  unchanged and makes no call to the system, whatever the clock and the time of the
  last sync are: the two branches of the ten-second comparison are the same.
\<close>

theorem cached_processes_returned_as_is:
  "(0 < Len (Processes p) \<and> \<not> disablePidCaching p \<longrightarrow>
      GetProcessesWithContext os p = ((Some (Processes p), None), p, [])
      \<and> GetProcessesWithContext (os\<lparr>Now_at_check := t\<rparr>) (p\<lparr>lastSync := t0\<rparr>)
          = ((Some (Processes p), None), p\<lparr>lastSync := t0\<rparr>, []))"
  by (simp add: GetProcessesWithContext_def)

theorem cached_processes_returned_as_is_witness:
  "0 < Len (Processes cached_monitor) \<and> \<not> disablePidCaching cached_monitor
   \<and> lastSync cached_monitor + sync_interval < Now_at_check sample_system
   \<and> GetProcessesWithContext sample_system cached_monitor
       = ((Some (Processes cached_monitor), None), cached_monitor, [])
   \<and> GetProcessesWithContext (sample_system\<lparr>Now_at_check := 5\<rparr>) (cached_monitor\<lparr>lastSync := 0\<rparr>)
       = ((Some (Processes cached_monitor), None), cached_monitor\<lparr>lastSync := 0\<rparr>, [])"
  using cached_processes_returned_as_is [of cached_monitor sample_system 5 0]
  by (simp add: cached_monitor_def Len_def sample_system_def sync_interval_def)

text \<open>
  C8. When a scan is made, a failure of the enumeration comes back as a nil map with
  the error wrapped behind "failed to get processes". When the enumeration succeeds
  the call returns a map and no error, whatever the reads of the single processes do:
  a process whose \<^verbatim>\<open>comm\<close> (or, for a long target, \<^verbatim>\<open>cmdline\<close>) cannot be read
  leaves the map being built as it was. The monitor then holds the new map in place of
  the old one, and the time of the scan as its last sync.
\<close>

theorem scan_errors_and_replacement:
  "(full_sync p \<and> ProcessesWithContext os = Inl err \<longrightarrow>
      fst (GetProcessesWithContext os p)
        = (None, Some (JoinError [ErrorString ''failed to get processes'', err])))
   \<and> (full_sync p \<and> ProcessesWithContext os = Inr procs \<longrightarrow>
      fst (GetProcessesWithContext os p)
        = (Some (fold (scan_proc os (name p)) procs NewOrderedMap), None)
      \<and> fst (snd (GetProcessesWithContext os p))
        = p\<lparr>Processes := fold (scan_proc os (name p)) procs NewOrderedMap,
            lastSync := Now_at_sync os\<rparr>)
   \<and> (ReadFile os
         (proc_path (Pid proc) (if length nm \<le> 15 then ''comm'' else ''cmdline'')) = Inl e1
       \<longrightarrow> scan_proc os nm proc ret = ret)"
proof (intro conjI impI)
  assume "full_sync p \<and> ProcessesWithContext os = Inl err"
  then show "fst (GetProcessesWithContext os p)
        = (None, Some (JoinError [ErrorString ''failed to get processes'', err]))"
    by (auto simp: full_sync_def GetProcessesWithContext_def Let_def Join_def
        List.map_filter_simps)
next
  assume a: "full_sync p \<and> ProcessesWithContext os = Inr procs"
  then show "fst (GetProcessesWithContext os p)
        = (Some (fold (scan_proc os (name p)) procs NewOrderedMap), None)"
    by (simp add: full_sync_result)
  from a show "fst (snd (GetProcessesWithContext os p))
        = p\<lparr>Processes := fold (scan_proc os (name p)) procs NewOrderedMap,
            lastSync := Now_at_sync os\<rparr>"
    by (simp add: full_sync_result)
next
  assume "ReadFile os
         (proc_path (Pid proc) (if length nm \<le> 15 then ''comm'' else ''cmdline'')) = Inl e1"
  then show "scan_proc os nm proc ret = ret"
    by (auto simp: scan_proc_def getProcName_def getProcCmdline_def split: if_splits)
qed

theorem scan_errors_and_replacement_witness:
  "full_sync long_monitor
   \<and> ProcessesWithContext failing_system = Inl (OSError ''permission denied'')
   \<and> fst (GetProcessesWithContext failing_system long_monitor)
       = (None, Some (JoinError [ErrorString ''failed to get processes'',
                                  OSError ''permission denied'']))
   \<and> ReadFile sample_system (proc_path 77 ''cmdline'') = Inl (OSError ''no such file or directory'')
   \<and> fst (GetProcessesWithContext sample_system long_monitor)
       = (Some [(42, handle \<lparr>Pid = 42\<rparr> ''rinzlerlabs-sbc-hwmonitor'')], None)
   \<and> fst (snd (GetProcessesWithContext sample_system long_monitor))
       = long_monitor\<lparr>Processes := [(42, handle \<lparr>Pid = 42\<rparr> ''rinzlerlabs-sbc-hwmonitor'')],
                      lastSync := 100000000005\<rparr>"
proof -
  let ?procs = "[\<lparr>Pid = 1\<rparr>, \<lparr>Pid = 2\<rparr>, \<lparr>Pid = 42\<rparr>, \<lparr>Pid = 77\<rparr>]"
  have l: "full_sync long_monitor"
    by (simp add: full_sync_def long_monitor_def NewProcessMonitor_def NewOrderedMap_def Len_def)
  have f: "ProcessesWithContext failing_system = Inl (OSError ''permission denied'')"
    by (simp add: failing_system_def)
  have e: "ProcessesWithContext sample_system = Inr ?procs"
    by (simp add: sample_system_def)
  have r: "ReadFile sample_system (proc_path 77 ''cmdline'') = Inl (OSError ''no such file or directory'')"
    by code_simp
  have t: "Now_at_sync sample_system = 100000000005"
    by (simp add: sample_system_def)
  have m: "fold (scan_proc sample_system (name long_monitor)) ?procs NewOrderedMap
             = [(42, handle \<lparr>Pid = 42\<rparr> ''rinzlerlabs-sbc-hwmonitor'')]"
    by code_simp
  from scan_errors_and_replacement [of long_monitor failing_system "OSError ''permission denied''"] l f
  have 1: "fst (GetProcessesWithContext failing_system long_monitor)
       = (None, Some (JoinError [ErrorString ''failed to get processes'',
                                  OSError ''permission denied'']))"
    by blast
  from scan_errors_and_replacement [of long_monitor sample_system _ ?procs] l e
  have 2: "fst (GetProcessesWithContext sample_system long_monitor)
        = (Some (fold (scan_proc sample_system (name long_monitor)) ?procs NewOrderedMap), None)"
    and 3: "fst (snd (GetProcessesWithContext sample_system long_monitor))
        = long_monitor\<lparr>Processes := fold (scan_proc sample_system (name long_monitor)) ?procs NewOrderedMap,
            lastSync := Now_at_sync sample_system\<rparr>"
    by blast+
  from l f 1 r 2 3 show ?thesis unfolding m t by blast
qed





end
